theory Spec2Isabelle
  imports Main "HOL-Library.Word"
begin

section \<open>The store API series client (pkg/series/storeapi/storeapi.go)\<close>

text \<open>
  The file talks to the file system, to crypto/x509 and crypto/tls, to gRPC and to the
  Thanos store protobuf package. None of these is code of the repository: every call whose
  answer depends on the world outside (files, certificates, the network, the remote store)
  is a field of the record \<open>env\<close> or of the stream record below, so that each theorem
  holds for whatever the libraries answer. The pure helpers (\<open>errors.Wrap\<close>,
  \<open>GetSeries\<close>, \<open>LabelsToPromLabels\<close>) are written out. What the repository's own
  functions do with the answers is modelled line by line. The effects that matter here
  (log lines, registering metrics, dialling, the Series call, CloseSend, closing the
  connection) are recorded as a list of events, in program order.
\<close>

subsection \<open>Errors and panics\<close>

text \<open>
  A Go \<open>error\<close> value is \<open>go_error option\<close>, with \<open>None\<close> for \<open>nil\<close>.
  \<open>io_EOF\<close> is the sentinel \<open>io.EOF\<close> (compared with \<open>==\<close> in \<open>Next\<close>),
  \<open>errors_New\<close> is \<open>errors.New\<close> of github.com/pkg/errors, \<open>lib_error\<close> is an
  error made by a library, and \<open>withMessage e msg\<close> is what \<open>errors.Wrap\<close> and
  \<open>errors.Wrapf\<close> build around a non-nil \<open>e\<close>.
\<close>

datatype go_error =
    io_EOF
  | errors_New string
  | lib_error string
  | withMessage go_error string

text \<open>\<open>errors.Wrap\<close> returns nil when the error it is given is nil.\<close>

fun errors_Wrap :: "go_error option \<Rightarrow> string \<Rightarrow> go_error option" where
  "errors_Wrap None message = None"
| "errors_Wrap (Some err) message = Some (withMessage err message)"

text \<open>\<open>errors.Cause\<close> unwraps down to the error that was wrapped first.\<close>

fun errors_Cause :: "go_error \<Rightarrow> go_error" where
  "errors_Cause (withMessage err message) = errors_Cause err"
| "errors_Cause err = err"

datatype go_panic =
    nil_pointer_dereference
  | lib_panic string

subsection \<open>Data of crypto/tls, gRPC and storepb that the file handles\<close>

type_synonym Logger = string
type_synonym CertPool = "string list"
type_synonym Certificate = string

text \<open>
  \<open>tls.Config\<close>, with the four fields the options of this client are about; a struct
  literal leaves the fields it does not name at their zero value.
\<close>

record tls_Config =
  RootCAs :: "CertPool option"
  InsecureSkipVerify :: bool
  Certificates :: "Certificate list"
  ServerName :: string

datatype Tracer = NoopTracer | OtherTracer nat

datatype DialOption =
    WithDefaultCallOptions_MaxCallRecvMsgSize int
  | WithUnaryInterceptor Tracer
  | WithStreamInterceptor Tracer
  | WithTransportCredentials "tls_Config option"

type_synonym Registry = nat
type_synonym Context = nat
type_synonym ClientConn = nat

datatype Time = Time int nat

datatype MatchType = MatchEqual | MatchNotEqual | MatchRegexp | MatchNotRegexp

record Matcher =
  m_Type :: MatchType
  m_Name :: string
  m_Value :: string

datatype LabelMatcher_Type = EQ | NEQ | RE | NRE

record LabelMatcher =
  lm_Type :: LabelMatcher_Type
  lm_Name :: string
  lm_Value :: string

datatype PartialResponseStrategy = PartialResponseStrategy_WARN | PartialResponseStrategy_ABORT

datatype Aggr = Aggr_RAW | Aggr_COUNT | Aggr_SUM | Aggr_MIN | Aggr_MAX | Aggr_COUNTER

text \<open>\<open>storepb.SeriesRequest\<close>; \<open>Read\<close> names four fields, the others stay zero.\<close>

record SeriesRequest =
  MinTime :: "64 word"
  MaxTime :: "64 word"
  Matchers :: "LabelMatcher list"
  MaxResolutionWindow :: "64 word"
  Aggregates :: "Aggr list"
  PartialResponseDisabled :: bool
  PartialResponseStrategy :: PartialResponseStrategy
  SkipChunks :: bool

datatype ZLabel = ZLabel string string
datatype Label = Label string string
type_synonym AggrChunk = string

record pb_Series =
  Labels :: "ZLabel list"
  Chunks :: "AggrChunk list"

text \<open>
  \<open>storepb.SeriesResponse\<close> is a oneof: a series, a warning or hints.
  \<open>GetSeries\<close> is nil-safe and answers nil for everything that is not a series.
\<close>

datatype SeriesResponse =
    SeriesResponse_Series pb_Series
  | SeriesResponse_Warning string
  | SeriesResponse_Hints string

fun GetSeries :: "SeriesResponse option \<Rightarrow> pb_Series option" where
  "GetSeries (Some (SeriesResponse_Series s)) = Some s"
| "GetSeries _ = None"

text \<open>
  The stream handle \<open>storepb.Store_SeriesClient\<close>. What the remote end will answer is
  not decided by this program: \<open>script\<close> gives the answer of the n-th \<open>Recv\<close>,
  \<open>pos\<close> counts the calls made so far, \<open>closeSendErr\<close> is what \<open>CloseSend\<close> answers.
\<close>

record Store_SeriesClient =
  script :: "nat \<Rightarrow> SeriesResponse option \<times> go_error option"
  pos :: nat
  closeSendErr :: "go_error option"

definition Recv ::
  "Store_SeriesClient \<Rightarrow> (SeriesResponse option \<times> go_error option) \<times> Store_SeriesClient" where
  "Recv client = (script client (pos client), client\<lparr>pos := Suc (pos client)\<rparr>)"

definition CloseSend :: "Store_SeriesClient \<Rightarrow> go_error option" where
  "CloseSend client = closeSendErr client"

subsection \<open>The library calls, as parameters\<close>

text \<open>
  Calls that return a plain value and an error are pairs, as in Go. \<open>grpc.DialContext\<close>
  and the \<open>Series\<close> call of the store client return a handle or an error, never both and
  never neither (the contract of gRPC), so they are sums.
\<close>

record env =
  ioutil_ReadFile :: "string \<Rightarrow> string \<times> go_error option"
  x509_AppendCertsFromPEM :: "CertPool \<Rightarrow> string \<Rightarrow> CertPool \<times> bool"
  x509_SystemCertPool :: "CertPool option \<times> go_error option"
  tls_LoadX509KeyPair :: "string \<Rightarrow> string \<Rightarrow> Certificate \<times> go_error option"
  prometheus_MustRegister :: "Registry \<Rightarrow> go_panic option"
  grpc_DialContext :: "Context \<Rightarrow> string \<Rightarrow> DialOption list \<Rightarrow> go_error + ClientConn"
  storepb_TranslatePromMatchers :: "Matcher list \<Rightarrow> LabelMatcher list \<times> go_error option"
  client_Series :: "ClientConn \<Rightarrow> Context \<Rightarrow> SeriesRequest \<Rightarrow> go_error + Store_SeriesClient"
  timestamp_FromTime :: "Time \<Rightarrow> 64 word"
  conn_Close :: "ClientConn \<Rightarrow> go_error option"

datatype event =
    LogInfo Logger string
  | MustRegisterCall Registry
  | Dialed string ClientConn
  | SeriesCall ClientConn SeriesRequest
  | CloseSendCall
  | ConnCloseCall ClientConn

definition x509_NewCertPool :: CertPool where
  "x509_NewCertPool = []"

subsection \<open>newCustomClientConfig\<close>

text \<open>
  The result is the Go pair \<open>(*tls.Config, error)\<close> with the log lines written.
  In the branch of a given CA file, \<open>err\<close> is the variable bound by \<open>ioutil.ReadFile\<close>,
  and it is that variable which the "building client CA" return wraps.
  The parameter \<open>serverName\<close> is not used by the body.
\<close>

definition newCustomClientConfig ::
  "env \<Rightarrow> Logger \<Rightarrow> string \<Rightarrow> string \<Rightarrow> string \<Rightarrow> string \<Rightarrow> bool \<Rightarrow>
     (tls_Config option \<times> go_error option) \<times> event list" where
  "newCustomClientConfig env logger cert key caCert serverName insecureSkipVerify =
    (case
       (if caCert \<noteq> '''' then
          (let (caPEM, err) = ioutil_ReadFile env caCert in
           if err \<noteq> None then Inl (None, errors_Wrap err ''reading client CA'')
           else
             (let (certPool, ok) = x509_AppendCertsFromPEM env x509_NewCertPool caPEM in
              if \<not> ok then Inl (None, errors_Wrap err ''building client CA'')
              else Inr (Some certPool,
                        [LogInfo logger ''TLS client using provided certificate pool''])))
        else
          (let (certPool, err) = x509_SystemCertPool env in
           if err \<noteq> None then Inl (None, errors_Wrap err ''reading system certificate pool'')
           else Inr (certPool, [LogInfo logger ''TLS client using system certificate pool''])))
     of
       Inl returned \<Rightarrow> (returned, [])
     | Inr (certPool, logs) \<Rightarrow>
         (let tlsCfg = \<lparr>RootCAs = certPool, InsecureSkipVerify = insecureSkipVerify,
                        Certificates = [], ServerName = ''''\<rparr>
          in
          if (key \<noteq> '''') \<noteq> (cert \<noteq> '''') then
            ((None, Some (errors_New ''both client key and certificate must be provided'')), logs)
          else if cert \<noteq> '''' then
            (let (cert', err) = tls_LoadX509KeyPair env cert key in
             if err \<noteq> None then ((None, errors_Wrap err ''client credentials''), logs)
             else ((Some (tlsCfg\<lparr>Certificates := [cert']\<rparr>), None),
                   logs @ [LogInfo logger ''TLS client authentication enabled'']))
          else ((Some tlsCfg, None), logs)))"

subsection \<open>InsecureClient\<close>

definition math_MaxInt32 :: int where
  "math_MaxInt32 = 2147483647"

text \<open>
  The gRPC dial options. \<open>reg.MustRegister\<close> panics when the registry refuses the
  collector; a nil slice is the empty list.
\<close>

definition InsecureClient ::
  "env \<Rightarrow> Logger \<Rightarrow> Registry option \<Rightarrow> Tracer \<Rightarrow> bool \<Rightarrow> string \<Rightarrow> string \<Rightarrow> string \<Rightarrow> string \<Rightarrow>
     go_panic + ((DialOption list \<times> go_error option) \<times> event list)" where
  "InsecureClient env logger reg tracer secure cert key caCert serverName =
    (let dialOpts = [WithDefaultCallOptions_MaxCallRecvMsgSize math_MaxInt32,
                     WithUnaryInterceptor tracer,
                     WithStreamInterceptor tracer]
     in
     case (case reg of
             None \<Rightarrow> Inr []
           | Some r \<Rightarrow> (case prometheus_MustRegister env r of
                          Some p \<Rightarrow> Inl p
                        | None \<Rightarrow> Inr [MustRegisterCall r]))
     of
       Inl p \<Rightarrow> Inl p
     | Inr registered \<Rightarrow>
         (let ((tlsCfg, err), logs) =
                newCustomClientConfig env logger cert key caCert serverName (\<not> secure);
              events = registered @ [LogInfo logger ''enabling client to server TLS''] @ logs
          in
          if err \<noteq> None then Inr (([], err), events)
          else Inr ((dialOpts @ [WithTransportCredentials tlsCfg], None), events)))"

subsection \<open>Series and Read\<close>

text \<open>
  \<open>series.Config\<close> and \<open>series.Params\<close> are declared in another package of the
  repository; these are the fields that \<open>Read\<close> reads.
\<close>

record series_TLSConfig =
  conf_InsecureSkipVerify :: bool
  CertFile :: string
  KeyFile :: string
  CAFile :: string
  conf_ServerName :: string

record series_Config =
  Endpoint :: string
  TLSConfig :: series_TLSConfig

record series_Params =
  params_Matchers :: "Matcher list"
  params_MinTime :: Time
  params_MaxTime :: Time

record Series =
  series_logger :: Logger
  series_conf :: series_Config

definition NewSeries :: "Logger \<Rightarrow> series_Config \<Rightarrow> Series \<times> go_error option" where
  "NewSeries logger conf = (\<lparr>series_logger = logger, series_conf = conf\<rparr>, None)"

record iterator =
  i_ctx :: Context
  i_conn :: ClientConn
  i_client :: Store_SeriesClient
  i_currentSeries :: "pb_Series option"
  i_mint :: "64 word"
  i_maxt :: "64 word"
  i_err :: "go_error option"

text \<open>
  \<open>Read\<close> returns the Go pair (cursor, error) and the events of the call. The event
  \<open>Dialed\<close> records a connection that \<open>grpc.DialContext\<close> has established.
\<close>

definition Read ::
  "env \<Rightarrow> Series \<Rightarrow> Context \<Rightarrow> series_Params \<Rightarrow>
     go_panic + ((iterator option \<times> go_error option) \<times> event list)" where
  "Read env i ctx params =
    (case InsecureClient env (series_logger i) None NoopTracer
            (\<not> conf_InsecureSkipVerify (TLSConfig (series_conf i)))
            (CertFile (TLSConfig (series_conf i)))
            (KeyFile (TLSConfig (series_conf i)))
            (CAFile (TLSConfig (series_conf i)))
            (conf_ServerName (TLSConfig (series_conf i)))
     of
       Inl p \<Rightarrow> Inl p
     | Inr ((dialOpts, err), events) \<Rightarrow>
         if err \<noteq> None then
           Inr ((None, errors_Wrap err ''error initializing GRPC options''), events)
         else
           (case grpc_DialContext env ctx (Endpoint (series_conf i)) dialOpts of
              Inl err \<Rightarrow>
                Inr ((None, errors_Wrap (Some err) ''error initializing GRPC dial context''),
                     events)
            | Inr conn \<Rightarrow>
                (let events = events @ [Dialed (Endpoint (series_conf i)) conn];
                     (matchers, err) = storepb_TranslatePromMatchers env (params_Matchers params)
                 in
                 if err \<noteq> None then Inr ((None, err), events)
                 else
                   (let req = \<lparr>MinTime = timestamp_FromTime env (params_MinTime params),
                               MaxTime = timestamp_FromTime env (params_MaxTime params),
                               Matchers = matchers,
                               MaxResolutionWindow = 0,
                               Aggregates = [],
                               PartialResponseDisabled = False,
                               PartialResponseStrategy = PartialResponseStrategy_ABORT,
                               SkipChunks = False\<rparr>;
                        events = events @ [SeriesCall conn req]
                    in
                    case client_Series env conn ctx req of
                      Inl err \<Rightarrow>
                        Inr ((None, errors_Wrap (Some err)
                                      (''storepb.Series against '' @ Endpoint (series_conf i))),
                             events)
                    | Inr seriesClient \<Rightarrow>
                        Inr ((Some \<lparr>i_ctx = ctx,
                                    i_conn = conn,
                                    i_client = seriesClient,
                                    i_currentSeries = None,
                                    i_mint = timestamp_FromTime env (params_MinTime params),
                                    i_maxt = timestamp_FromTime env (params_MaxTime params),
                                    i_err = None\<rparr>,
                              None),
                             events)))))"

subsection \<open>The cursor: Next, At, Err, Close\<close>

definition Next :: "iterator \<Rightarrow> bool \<times> iterator" where
  "Next i =
    (let ((seriesResp, err), client) = Recv (i_client i);
         i = i\<lparr>i_client := client\<rparr>
     in
     if err = Some io_EOF then (False, i)
     else if err \<noteq> None then (False, i\<lparr>i_err := err\<rparr>)
     else (True, i\<lparr>i_currentSeries := GetSeries seriesResp\<rparr>))"

fun LabelsToPromLabels :: "ZLabel list \<Rightarrow> Label list" where
  "LabelsToPromLabels [] = []"
| "LabelsToPromLabels (ZLabel name val # lset) = Label name val # LabelsToPromLabels lset"

text \<open>
  \<open>newChunkSeries\<close> is defined in another file of the package and is a parameter here.
  Its arguments are evaluated first, and \<open>i.currentSeries.Labels\<close> reads a field through
  the pointer \<open>i.currentSeries\<close>: when that pointer is nil the read panics.
\<close>

definition At ::
  "(Label list \<Rightarrow> AggrChunk list \<Rightarrow> 64 word \<Rightarrow> 64 word \<Rightarrow> Aggr list \<Rightarrow> 's) \<Rightarrow> iterator \<Rightarrow>
     go_panic + 's" where
  "At newChunkSeries i =
    (case i_currentSeries i of
       None \<Rightarrow> Inl nil_pointer_dereference
     | Some currentSeries \<Rightarrow>
         Inr (newChunkSeries
                (LabelsToPromLabels (Labels currentSeries))
                (Chunks currentSeries)
                (i_mint i) (i_maxt i)
                [Aggr_COUNT, Aggr_SUM]))"

definition Warnings :: "iterator \<Rightarrow> string list" where
  "Warnings i = []"

definition Err :: "iterator \<Rightarrow> go_error option" where
  "Err i = i_err i"

definition Close :: "env \<Rightarrow> iterator \<Rightarrow> go_error option \<times> event list" where
  "Close env i =
    (let err = CloseSend (i_client i) in
     if err \<noteq> None then (err, [CloseSendCall])
     else (conn_Close env (i_conn i), [CloseSendCall, ConnCloseCall (i_conn i)]))"

subsection \<open>What a claim needs to say about a run\<close>

text \<open>The requests handed to the store's \<open>Series\<close> call during a run, in order.\<close>

fun requests_sent :: "event list \<Rightarrow> SeriesRequest list" where
  "requests_sent [] = []"
| "requests_sent (SeriesCall conn req # events) = req # requests_sent events"
| "requests_sent (_ # events) = requests_sent events"

text \<open>
  The connections established during a run, and those of them that the run has not closed.
\<close>

fun dialed :: "event list \<Rightarrow> ClientConn list" where
  "dialed [] = []"
| "dialed (Dialed target conn # events) = conn # dialed events"
| "dialed (_ # events) = dialed events"

definition left_open :: "event list \<Rightarrow> ClientConn list" where
  "left_open events = filter (\<lambda>conn. ConnCloseCall conn \<notin> set events) (dialed events)"

text \<open>The cursor after \<open>n\<close> calls of \<open>Next\<close>.\<close>

fun Nexts :: "nat \<Rightarrow> iterator \<Rightarrow> iterator" where
  "Nexts 0 i = i"
| "Nexts (Suc n) i = snd (Next (Nexts n i))"

text \<open>
  The CA stage of \<open>newCustomClientConfig\<close> went through: the given CA file was read and
  a certificate was parsed from it, or no CA file was given and the system pool loaded.
\<close>

definition certPool_loaded :: "env \<Rightarrow> string \<Rightarrow> bool" where
  "certPool_loaded env caCert =
    (if caCert \<noteq> '''' then
       snd (ioutil_ReadFile env caCert) = None
       \<and> snd (x509_AppendCertsFromPEM env x509_NewCertPool (fst (ioutil_ReadFile env caCert)))
     else snd (x509_SystemCertPool env) = None)"

subsection \<open>Concrete inputs\<close>

text \<open>
  A small world to run the functions in: a readable CA file holding a certificate
  (\<open>ca.pem\<close>), a readable file holding none (\<open>notes.txt\<close>), no other file, a system pool,
  a dial that connects, a matcher translation that succeeds, a store that opens a stream
  which ends at once.
\<close>

definition example_env :: env where
  "example_env =
    \<lparr>ioutil_ReadFile = (\<lambda>filename.
        if filename = ''ca.pem'' then (''CERTIFICATE'', None)
        else if filename = ''notes.txt'' then (''no certificate in here'', None)
        else ('''', Some (lib_error ''open: no such file or directory''))),
     x509_AppendCertsFromPEM = (\<lambda>pool pemCerts.
        if pemCerts = ''CERTIFICATE'' then (pool @ [pemCerts], True) else (pool, False)),
     x509_SystemCertPool = (Some [''system roots''], None),
     tls_LoadX509KeyPair = (\<lambda>certFile keyFile. (certFile @ ''+'' @ keyFile, None)),
     prometheus_MustRegister = (\<lambda>reg. None),
     grpc_DialContext = (\<lambda>ctx target opts. Inr 1),
     storepb_TranslatePromMatchers = (\<lambda>ms.
        (map (\<lambda>m. \<lparr>lm_Type = (case m_Type m of MatchEqual \<Rightarrow> EQ | MatchNotEqual \<Rightarrow> NEQ
                                  | MatchRegexp \<Rightarrow> RE | MatchNotRegexp \<Rightarrow> NRE),
                      lm_Name = m_Name m, lm_Value = m_Value m\<rparr>) ms, None)),
     client_Series = (\<lambda>conn ctx req.
        Inr \<lparr>script = (\<lambda>n. (None, Some io_EOF)), pos = 0, closeSendErr = None\<rparr>),
     timestamp_FromTime = (\<lambda>t.
        case t of Time s ns \<Rightarrow> word_of_int (s * 1000 + int (ns div 1000000))),
     conn_Close = (\<lambda>conn. None)\<rparr>"

definition example_series :: Series where
  "example_series =
    \<lparr>series_logger = ''logger'',
     series_conf = \<lparr>Endpoint = ''store.example.com:10901'',
                    TLSConfig = \<lparr>conf_InsecureSkipVerify = False, CertFile = '''', KeyFile = '''',
                                 CAFile = ''ca.pem'', conf_ServerName = ''''\<rparr>\<rparr>\<rparr>"

definition example_params :: series_Params where
  "example_params =
    \<lparr>params_Matchers = [\<lparr>m_Type = MatchEqual, m_Name = ''__name__'', m_Value = ''up''\<rparr>],
     params_MinTime = Time 1 0,
     params_MaxTime = Time 5 500000000\<rparr>"

definition example_request :: SeriesRequest where
  "example_request =
    \<lparr>MinTime = 1000, MaxTime = 5500,
     Matchers = [\<lparr>lm_Type = EQ, lm_Name = ''__name__'', lm_Value = ''up''\<rparr>],
     MaxResolutionWindow = 0, Aggregates = [], PartialResponseDisabled = False,
     PartialResponseStrategy = PartialResponseStrategy_ABORT, SkipChunks = False\<rparr>"

text \<open>The cursor that \<open>Read\<close> builds in this world, around a given stream.\<close>

definition example_cursor :: "Store_SeriesClient \<Rightarrow> iterator" where
  "example_cursor seriesClient =
    \<lparr>i_ctx = 7, i_conn = 1, i_client = seriesClient, i_currentSeries = None,
     i_mint = 1000, i_maxt = 5500, i_err = None\<rparr>"

definition unavailable :: go_error where
  "unavailable = lib_error ''rpc error: code = Unavailable desc = connection refused''"

text \<open>
  Streams: one that has ended; one that delivers a warning frame and then ends; one that
  delivers a series and then fails.
\<close>

definition ended_stream :: Store_SeriesClient where
  "ended_stream = \<lparr>script = (\<lambda>n. (None, Some io_EOF)), pos = 0, closeSendErr = None\<rparr>"

definition warning_stream :: Store_SeriesClient where
  "warning_stream =
    \<lparr>script = (\<lambda>n. if n = 0 then (Some (SeriesResponse_Warning ''store not ready''), None)
                     else (None, Some io_EOF)),
     pos = 0, closeSendErr = None\<rparr>"

definition serving_stream :: Store_SeriesClient where
  "serving_stream =
    \<lparr>script = (\<lambda>n. if n = 0 then (Some (SeriesResponse_Series
                                          \<lparr>Labels = [ZLabel ''__name__'' ''up''],
                                           Chunks = [''chunk'']\<rparr>), None)
                     else (None, Some unavailable)),
     pos = 0, closeSendErr = None\<rparr>"

text \<open>The example world with a store that opens this last stream.\<close>

definition serving_env :: env where
  "serving_env = example_env\<lparr>client_Series := (\<lambda>conn ctx req. Inr serving_stream)\<rparr>"

text \<open>
  The same world with a store that cannot be reached: the dial returns a connection (it
  does not wait for the transport), and opening the stream fails.
\<close>

definition unreachable_env :: env where
  "unreachable_env = example_env\<lparr>client_Series := (\<lambda>conn ctx req. Inl unavailable)\<rparr>"

text \<open>A stand-in for \<open>newChunkSeries\<close> that keeps its arguments.\<close>

definition chunkSeries_args ::
  "Label list \<Rightarrow> AggrChunk list \<Rightarrow> 64 word \<Rightarrow> 64 word \<Rightarrow> Aggr list \<Rightarrow>
     Label list \<times> AggrChunk list \<times> 64 word \<times> 64 word \<times> Aggr list" where
  "chunkSeries_args lset chunks mint maxt aggrs = (lset, chunks, mint, maxt, aggrs)"

section \<open>Theorems\<close>

subsection \<open>newCustomClientConfig\<close>

text \<open>The server name does not reach the result: any two server names give the same result.\<close>

lemma newCustomClientConfig_serverName_unused:
  "newCustomClientConfig env logger cert key caCert serverName insecureSkipVerify
     = newCustomClientConfig env logger cert key caCert serverName' insecureSkipVerify"
  by (simp add: newCustomClientConfig_def)

text \<open>
  C6. The claim says that every knob reaches the TLS configuration, the server name among
  them. With no client certificate, no CA file and the server name \<open>store.example.com\<close>,
  the configuration returned has the system pool and the skip-verify flag, and an empty
  \<open>ServerName\<close>: the parameter is accepted and dropped.
\<close>

theorem newCustomClientConfig_drops_serverName:
  "newCustomClientConfig example_env ''logger'' '''' '''' '''' ''store.example.com'' False
     = ((Some \<lparr>RootCAs = Some [''system roots''], InsecureSkipVerify = False,
               Certificates = [], ServerName = ''''\<rparr>, None),
        [LogInfo ''logger'' ''TLS client using system certificate pool''])"
  by (simp add: newCustomClientConfig_def example_env_def)

text \<open>
  C8. When a CA file is given, is read without error, and no certificate is parsed from
  it, \<open>newCustomClientConfig\<close> returns a nil configuration and a nil error: the return
  wraps the error variable of the read, which is nil there.
\<close>

theorem newCustomClientConfig_unparsable_CA:
  assumes "caCert \<noteq> ''''"
    and "ioutil_ReadFile env caCert = (caPEM, None)"
    and "snd (x509_AppendCertsFromPEM env x509_NewCertPool caPEM) = False"
  shows "newCustomClientConfig env logger cert key caCert serverName insecureSkipVerify
           = ((None, None), [])"
  using assms by (auto simp add: newCustomClientConfig_def split: prod.splits)

theorem newCustomClientConfig_unparsable_CA_witness:
  "''notes.txt'' \<noteq> ''''
   \<and> ioutil_ReadFile example_env ''notes.txt'' = (''no certificate in here'', None)
   \<and> snd (x509_AppendCertsFromPEM example_env x509_NewCertPool ''no certificate in here'') = False
   \<and> newCustomClientConfig example_env ''logger'' '''' '''' ''notes.txt'' '''' False
       = ((None, None), [])"
proof -
  have a: "''notes.txt'' \<noteq> ''''" by simp
  have b: "ioutil_ReadFile example_env ''notes.txt'' = (''no certificate in here'', None)"
    by (simp add: example_env_def)
  have c: "snd (x509_AppendCertsFromPEM example_env x509_NewCertPool ''no certificate in here'')
             = False"
    by (simp add: example_env_def)
  from newCustomClientConfig_unparsable_CA [OF a b c] a b c show ?thesis by blast
qed

text \<open>
  C9, as stated: whenever exactly one of key and certificate is given, the result is a nil
  configuration and the error "both client key and certificate must be provided".
  It fails when the CA stage returns first: with a key, no certificate and a CA file that
  cannot be read, the error is the one of the read.
\<close>

theorem newCustomClientConfig_key_only_unreadable_CA:
  "(''client.key'' \<noteq> '''') \<noteq> ('''' \<noteq> '''')
   \<and> fst (newCustomClientConfig example_env ''logger'' '''' ''client.key'' ''missing.pem'' '''' False)
       = (None, Some (withMessage (lib_error ''open: no such file or directory'')
                        ''reading client CA''))
   \<and> fst (newCustomClientConfig example_env ''logger'' '''' ''client.key'' ''missing.pem'' '''' False)
       \<noteq> (None, Some (errors_New ''both client key and certificate must be provided''))"
  by (simp add: newCustomClientConfig_def example_env_def)

text \<open>
  C9, amended: whenever exactly one of key and certificate is given and the CA stage went
  through, the result is a nil configuration and the error "both client key and
  certificate must be provided"; and a configuration that is returned carries a client
  certificate exactly when both were given.
\<close>

theorem newCustomClientConfig_key_cert_mismatch:
  "((key \<noteq> '''') \<noteq> (cert \<noteq> '''') \<and> certPool_loaded env caCert \<longrightarrow>
      fst (newCustomClientConfig env logger cert key caCert serverName insecureSkipVerify)
        = (None, Some (errors_New ''both client key and certificate must be provided'')))
   \<and> (\<forall>tlsCfg. fst (fst (newCustomClientConfig env logger cert key caCert serverName
                            insecureSkipVerify)) = Some tlsCfg \<longrightarrow>
         (Certificates tlsCfg \<noteq> [] \<longleftrightarrow> cert \<noteq> '''' \<and> key \<noteq> ''''))"
  by (auto simp add: newCustomClientConfig_def certPool_loaded_def Let_def
           split: prod.splits if_splits)

theorem newCustomClientConfig_key_cert_mismatch_witness:
  "(''client.key'' \<noteq> '''') \<noteq> ('''' \<noteq> '''')
   \<and> certPool_loaded example_env ''ca.pem''
   \<and> fst (newCustomClientConfig example_env ''logger'' '''' ''client.key'' ''ca.pem'' '''' False)
       = (None, Some (errors_New ''both client key and certificate must be provided''))
   \<and> fst (fst (newCustomClientConfig example_env ''logger'' ''client.crt'' ''client.key''
                  ''ca.pem'' '''' False))
       = Some \<lparr>RootCAs = Some [''CERTIFICATE''], InsecureSkipVerify = False,
               Certificates = [''client.crt+client.key''], ServerName = ''''\<rparr>
   \<and> Certificates \<lparr>RootCAs = Some [''CERTIFICATE''], InsecureSkipVerify = False,
                    Certificates = [''client.crt+client.key''], ServerName = ''''\<rparr> \<noteq> []"
proof -
  have a: "(''client.key'' \<noteq> '''') \<noteq> ('''' \<noteq> '''')" by simp
  have b: "certPool_loaded example_env ''ca.pem''"
    by (simp add: certPool_loaded_def example_env_def)
  have c: "fst (fst (newCustomClientConfig example_env ''logger'' ''client.crt'' ''client.key''
                       ''ca.pem'' '''' False))
             = Some \<lparr>RootCAs = Some [''CERTIFICATE''], InsecureSkipVerify = False,
                     Certificates = [''client.crt+client.key''], ServerName = ''''\<rparr>"
    by (simp add: newCustomClientConfig_def example_env_def x509_NewCertPool_def)
  from newCustomClientConfig_key_cert_mismatch
         [where key = "''client.key''" and cert = "''''" and env = example_env
            and caCert = "''ca.pem''" and logger = "''logger''" and serverName = "''''"
            and insecureSkipVerify = False]
       a b
  have d: "fst (newCustomClientConfig example_env ''logger'' '''' ''client.key'' ''ca.pem'' '''' False)
             = (None, Some (errors_New ''both client key and certificate must be provided''))"
    by blast
  from newCustomClientConfig_key_cert_mismatch
         [where key = "''client.key''" and cert = "''client.crt''" and env = example_env
            and caCert = "''ca.pem''" and logger = "''logger''" and serverName = "''''"
            and insecureSkipVerify = False]
       c
  have e: "Certificates \<lparr>RootCAs = Some [''CERTIFICATE''], InsecureSkipVerify = False,
                          Certificates = [''client.crt+client.key''], ServerName = ''''\<rparr> \<noteq> []"
    by simp
  from a b c d e show ?thesis by blast
qed

subsection \<open>Read\<close>

text \<open>The TLS stage writes log lines only.\<close>

lemma newCustomClientConfig_events:
  assumes "newCustomClientConfig env logger cert key caCert serverName skip = (returned, events)"
  shows "requests_sent events = [] \<and> dialed events = []
           \<and> (\<forall>conn. ConnCloseCall conn \<notin> set events)"
  using assms
  by (auto simp add: newCustomClientConfig_def Let_def split: prod.splits if_splits sum.splits)

text \<open>Without a registry \<open>InsecureClient\<close> returns, and it neither dials nor closes.\<close>

lemma InsecureClient_no_registry:
  "\<exists>opts err events.
      InsecureClient env logger None tracer secure cert key caCert serverName
        = Inr ((opts, err), events)
      \<and> requests_sent events = [] \<and> dialed events = []
      \<and> (\<forall>conn. ConnCloseCall conn \<notin> set events)"
proof -
  obtain tlsCfg err logs where
    c: "newCustomClientConfig env logger cert key caCert serverName (\<not> secure)
          = ((tlsCfg, err), logs)"
    by (metis surj_pair)
  from newCustomClientConfig_events [OF c] c show ?thesis
    by (auto simp add: InsecureClient_def Let_def)
qed

lemma requests_sent_append:
  "requests_sent (xs @ ys) = requests_sent xs @ requests_sent ys"
  by (induction xs rule: requests_sent.induct) simp_all

lemma dialed_append: "dialed (xs @ ys) = dialed xs @ dialed ys"
  by (induction xs rule: dialed.induct) simp_all

lemma Read_returns: "\<exists>returned events. Read env i ctx params = Inr (returned, events)"
proof -
  obtain opts err events where
    "InsecureClient env (series_logger i) None NoopTracer
            (\<not> conf_InsecureSkipVerify (TLSConfig (series_conf i)))
            (CertFile (TLSConfig (series_conf i)))
            (KeyFile (TLSConfig (series_conf i)))
            (CAFile (TLSConfig (series_conf i)))
            (conf_ServerName (TLSConfig (series_conf i))) = Inr ((opts, err), events)"
    using InsecureClient_no_registry by blast
  then show ?thesis
    by (auto simp add: Read_def Let_def split: sum.splits prod.splits)
qed

text \<open>
  A cursor comes with a nil error and an error with a nil cursor; a cursor that is
  returned has no error recorded, and its connection is the one dialled in the call.
\<close>

lemma Read_cursor_fresh:
  assumes "Read env i ctx params = Inr ((cursor, err), events)"
  shows "(cursor = None) = (err \<noteq> None)"
    and "cursor = Some c \<Longrightarrow>
           i_err c = None \<and> i_currentSeries c = None \<and> i_ctx c = ctx
           \<and> dialed events = [i_conn c]"
proof -
  obtain opts err0 events0 where
    "InsecureClient env (series_logger i) None NoopTracer
            (\<not> conf_InsecureSkipVerify (TLSConfig (series_conf i)))
            (CertFile (TLSConfig (series_conf i)))
            (KeyFile (TLSConfig (series_conf i)))
            (CAFile (TLSConfig (series_conf i)))
            (conf_ServerName (TLSConfig (series_conf i))) = Inr ((opts, err0), events0)"
    and "dialed events0 = []"
    using InsecureClient_no_registry by blast
  with assms show "(cursor = None) = (err \<noteq> None)"
    and "cursor = Some c \<Longrightarrow>
           i_err c = None \<and> i_currentSeries c = None \<and> i_ctx c = ctx
           \<and> dialed events = [i_conn c]"
    by (auto simp add: Read_def Let_def dialed_append
             split: sum.splits prod.splits if_splits option.splits)
qed

text \<open>\<open>Read\<close> closes no connection, so every connection it has dialled is left open.\<close>

lemma Read_closes_nothing:
  assumes "Read env i ctx params = Inr (returned, events)"
  shows "left_open events = dialed events"
proof -
  obtain opts err0 events0 where
    "InsecureClient env (series_logger i) None NoopTracer
            (\<not> conf_InsecureSkipVerify (TLSConfig (series_conf i)))
            (CertFile (TLSConfig (series_conf i)))
            (KeyFile (TLSConfig (series_conf i)))
            (CAFile (TLSConfig (series_conf i)))
            (conf_ServerName (TLSConfig (series_conf i))) = Inr ((opts, err0), events0)"
    and "\<forall>conn. ConnCloseCall conn \<notin> set events0"
    using InsecureClient_no_registry by blast
  with assms have "\<forall>conn. ConnCloseCall conn \<notin> set events"
    by (auto simp add: Read_def Let_def split: sum.splits prod.splits if_splits option.splits)
  then show ?thesis
    by (simp add: left_open_def)
qed

text \<open>Wrapping keeps the cause.\<close>

lemma errors_Wrap_keeps_cause:
  "errors_Wrap (Some err) message = Some err' \<Longrightarrow> errors_Cause err' = errors_Cause err"
  by auto

text \<open>
  A failed \<open>Read\<close> returns a nil cursor, and its error has the cause of the stage that
  failed: the dial options, the dial, the matcher translation or the Series call.
\<close>

lemma Read_failure_cause:
  assumes "Read env i ctx params = Inr ((cursor, Some err), events)"
  shows "cursor = None \<and>
         (\<exists>cause. errors_Cause err = errors_Cause cause \<and>
            ((\<exists>opts events'.
                 InsecureClient env (series_logger i) None NoopTracer
                   (\<not> conf_InsecureSkipVerify (TLSConfig (series_conf i)))
                   (CertFile (TLSConfig (series_conf i)))
                   (KeyFile (TLSConfig (series_conf i)))
                   (CAFile (TLSConfig (series_conf i)))
                   (conf_ServerName (TLSConfig (series_conf i)))
                   = Inr ((opts, Some cause), events'))
             \<or> (\<exists>opts. grpc_DialContext env ctx (Endpoint (series_conf i)) opts = Inl cause)
             \<or> snd (storepb_TranslatePromMatchers env (params_Matchers params)) = Some cause
             \<or> (\<exists>conn req. client_Series env conn ctx req = Inl cause)))"
proof -
  obtain opts err0 events0 where ic:
    "InsecureClient env (series_logger i) None NoopTracer
            (\<not> conf_InsecureSkipVerify (TLSConfig (series_conf i)))
            (CertFile (TLSConfig (series_conf i)))
            (KeyFile (TLSConfig (series_conf i)))
            (CAFile (TLSConfig (series_conf i)))
            (conf_ServerName (TLSConfig (series_conf i))) = Inr ((opts, err0), events0)"
    using InsecureClient_no_registry by blast
  show ?thesis
  proof (cases err0)
    case (Some cause)
    with assms ic have "err = withMessage cause ''error initializing GRPC options''"
      and "cursor = None"
      by (auto simp add: Read_def)
    with ic Some show ?thesis by (metis errors_Cause.simps(1))
  next
    case None
    note no_err = None
    show ?thesis
    proof (cases "grpc_DialContext env ctx (Endpoint (series_conf i)) opts")
      case (Inl cause)
      with assms ic no_err have "err = withMessage cause ''error initializing GRPC dial context''"
        and "cursor = None"
        by (auto simp add: Read_def)
      with Inl show ?thesis by (metis errors_Cause.simps(1))
    next
      case (Inr conn)
      obtain matchers err1 where
        tr: "storepb_TranslatePromMatchers env (params_Matchers params) = (matchers, err1)"
        by (metis surj_pair)
      show ?thesis
      proof (cases err1)
        case (Some cause)
        with assms ic no_err Inr tr have "err = cause" and "cursor = None"
          by (auto simp add: Read_def Let_def)
        with tr Some show ?thesis by auto
      next
        case None
        with assms ic no_err Inr tr obtain cause req where
          "client_Series env conn ctx req = Inl cause"
          and "err = withMessage cause (''storepb.Series against '' @ Endpoint (series_conf i))"
          and "cursor = None"
          by (auto simp add: Read_def Let_def split: sum.splits)
        then show ?thesis by (metis errors_Cause.simps(1))
      qed
    qed
  qed
qed

text \<open>The run of \<open>Read\<close> in the example world.\<close>

lemma Read_example:
  "Read example_env example_series 7 example_params
     = Inr ((Some (example_cursor ended_stream), None),
            [LogInfo ''logger'' ''enabling client to server TLS'',
             LogInfo ''logger'' ''TLS client using provided certificate pool'',
             Dialed ''store.example.com:10901'' 1,
             SeriesCall 1 example_request])"
  by (simp add: Read_def InsecureClient_def newCustomClientConfig_def example_env_def
        example_series_def example_params_def example_request_def example_cursor_def
        ended_stream_def x509_NewCertPool_def math_MaxInt32_def)

text \<open>
  C3. The claim says that a failed \<open>Read\<close> returns a nil cursor and a non-nil error that
  keeps the cause, and leaves no connection open. With a store that cannot be reached,
  \<open>Read\<close> returns a nil cursor and the wrapped cause, and the connection dialled in the
  call is never closed: it is left open, with no cursor to close it through.
\<close>

theorem Read_failure_leaves_connection_open:
  "(case Read unreachable_env example_series 7 example_params of
      Inl p \<Rightarrow> False
    | Inr (returned, events) \<Rightarrow>
        returned = (None, Some (withMessage unavailable
                                  ''storepb.Series against store.example.com:10901''))
        \<and> dialed events = [1] \<and> ConnCloseCall 1 \<notin> set events \<and> left_open events = [1])"
  by (simp add: Read_def InsecureClient_def newCustomClientConfig_def example_env_def
        unreachable_env_def example_series_def example_params_def left_open_def
        x509_NewCertPool_def math_MaxInt32_def)

text \<open>
  C4. For every successful \<open>Read\<close>, exactly one request is sent to the store: its
  \<open>MinTime\<close> and \<open>MaxTime\<close> are \<open>timestamp.FromTime\<close> of the parameters' times, its
  matchers are the translation of the parameters' matchers (which succeeded), its partial
  response strategy is ABORT, and every other field is zero.
\<close>

theorem Read_request:
  assumes "Read env i ctx params = Inr ((cursor, None), events)"
  shows "requests_sent events =
           [\<lparr>MinTime = timestamp_FromTime env (params_MinTime params),
             MaxTime = timestamp_FromTime env (params_MaxTime params),
             Matchers = fst (storepb_TranslatePromMatchers env (params_Matchers params)),
             MaxResolutionWindow = 0, Aggregates = [], PartialResponseDisabled = False,
             PartialResponseStrategy = PartialResponseStrategy_ABORT, SkipChunks = False\<rparr>]
         \<and> snd (storepb_TranslatePromMatchers env (params_Matchers params)) = None"
proof -
  obtain opts err0 events0 where ic:
    "InsecureClient env (series_logger i) None NoopTracer
            (\<not> conf_InsecureSkipVerify (TLSConfig (series_conf i)))
            (CertFile (TLSConfig (series_conf i)))
            (KeyFile (TLSConfig (series_conf i)))
            (CAFile (TLSConfig (series_conf i)))
            (conf_ServerName (TLSConfig (series_conf i))) = Inr ((opts, err0), events0)"
    and ev0: "requests_sent events0 = []"
    using InsecureClient_no_registry by blast
  from assms ic ev0 show ?thesis
    by (auto simp add: Read_def Let_def requests_sent_append
             split: sum.splits prod.splits if_splits option.splits)
qed

theorem Read_request_witness:
  "Read example_env example_series 7 example_params
     = Inr ((Some (example_cursor ended_stream), None),
            [LogInfo ''logger'' ''enabling client to server TLS'',
             LogInfo ''logger'' ''TLS client using provided certificate pool'',
             Dialed ''store.example.com:10901'' 1,
             SeriesCall 1 example_request])
   \<and> requests_sent
        [LogInfo ''logger'' ''enabling client to server TLS'',
         LogInfo ''logger'' ''TLS client using provided certificate pool'',
         Dialed ''store.example.com:10901'' 1,
         SeriesCall 1 example_request]
       = [\<lparr>MinTime = 1000, MaxTime = 5500,
           Matchers = [\<lparr>lm_Type = EQ, lm_Name = ''__name__'', lm_Value = ''up''\<rparr>],
           MaxResolutionWindow = 0, Aggregates = [], PartialResponseDisabled = False,
           PartialResponseStrategy = PartialResponseStrategy_ABORT, SkipChunks = False\<rparr>]"
proof -
  have t: "timestamp_FromTime example_env (params_MinTime example_params) = 1000"
    "timestamp_FromTime example_env (params_MaxTime example_params) = 5500"
    "fst (storepb_TranslatePromMatchers example_env (params_Matchers example_params))
       = [\<lparr>lm_Type = EQ, lm_Name = ''__name__'', lm_Value = ''up''\<rparr>]"
    by (simp_all add: example_env_def example_params_def)
  from Read_request [OF Read_example] Read_example t show ?thesis
    by simp
qed

subsection \<open>The cursor\<close>

text \<open>The run of \<open>Read\<close> against the store that serves one series and then fails.\<close>

lemma Read_serving:
  "Read serving_env example_series 7 example_params
     = Inr ((Some (example_cursor serving_stream), None),
            [LogInfo ''logger'' ''enabling client to server TLS'',
             LogInfo ''logger'' ''TLS client using provided certificate pool'',
             Dialed ''store.example.com:10901'' 1,
             SeriesCall 1 example_request])"
  by (simp add: Read_def InsecureClient_def newCustomClientConfig_def example_env_def
        serving_env_def example_series_def example_params_def example_request_def
        example_cursor_def x509_NewCertPool_def math_MaxInt32_def)

text \<open>One call of \<open>Next\<close> on a cursor that has no error recorded.\<close>

lemma Next_without_recorded_error:
  assumes "i_err i = None"
    and "Recv (i_client i) = ((seriesResp, err), client)"
    and "Next i = (advanced, i')"
  shows "(err = Some io_EOF \<longrightarrow> \<not> advanced \<and> Err i' = None)
       \<and> (err \<noteq> None \<and> err \<noteq> Some io_EOF \<longrightarrow> \<not> advanced \<and> Err i' = err)
       \<and> (advanced \<longleftrightarrow> err = None)
       \<and> (advanced \<longrightarrow> Err i' = None)"
  using assms by (auto simp add: Next_def Err_def Let_def split: if_splits)

text \<open>What \<open>Next\<close> does to the recorded error, whatever it was before.\<close>

lemma Next_error_sticky:
  assumes "Recv (i_client i) = ((seriesResp, err), client)"
    and "Next i = (advanced, i')"
  shows "Err i' = (if err = None \<or> err = Some io_EOF then Err i else err)"
  using assms by (auto simp add: Next_def Err_def Let_def split: if_splits)



text \<open>As long as every call of \<open>Next\<close> has returned true, no error is recorded.\<close>

lemma Nexts_no_error:
  assumes "i_err i = None" and "\<forall>k<n. fst (Next (Nexts k i))"
  shows "i_err (Nexts n i) = None"
  using assms
proof (induction n)
  case 0
  then show ?case by simp
next
  case (Suc n)
  then have ih: "i_err (Nexts n i) = None" and adv: "fst (Next (Nexts n i))"
    by simp_all
  obtain seriesResp err client where
    r: "Recv (i_client (Nexts n i)) = ((seriesResp, err), client)"
    by (metis surj_pair)
  obtain advanced i' where nx: "Next (Nexts n i) = (advanced, i')"
    by (metis surj_pair)
  from Next_without_recorded_error [OF ih r nx] adv nx show ?case
    by (simp add: Err_def)
qed

text \<open>
  C2. For every cursor that \<open>Read\<close> returned and that has been advanced \<open>n\<close> times, each
  time with the answer true: the next call of \<open>Next\<close> returns false with \<open>Err()\<close> nil
  when \<open>Recv\<close> answers \<open>io.EOF\<close>, returns false with \<open>Err()\<close> that non-nil error when
  \<open>Recv\<close> fails in any other way, and returns true exactly when \<open>Recv\<close> delivered a
  response. So the call that ends the iteration tells a clean end from a failure through
  \<open>Err()\<close>.
\<close>

theorem Next_distinguishes_end_from_failure:
  assumes "Read env s ctx params = Inr ((Some c, e0), events)"
    and "\<forall>k<n. fst (Next (Nexts k c))"
    and "Recv (i_client (Nexts n c)) = ((seriesResp, err), client)"
    and "Next (Nexts n c) = (advanced, i')"
  shows "(err = Some io_EOF \<longrightarrow> \<not> advanced \<and> Err i' = None)
       \<and> (err \<noteq> None \<and> err \<noteq> Some io_EOF \<longrightarrow>
            \<not> advanced \<and> Err i' = err \<and> Err i' \<noteq> None)
       \<and> (advanced \<longleftrightarrow> err = None)"
proof -
  from Read_cursor_fresh(2) [OF assms(1)] have "i_err c = None" by simp
  then have "i_err (Nexts n c) = None" using assms(2) by (rule Nexts_no_error)
  from Next_without_recorded_error [OF this assms(3,4)] show ?thesis by blast
qed

theorem Next_distinguishes_end_from_failure_witness:
  "Read serving_env example_series 7 example_params
     = Inr ((Some (example_cursor serving_stream), None),
            [LogInfo ''logger'' ''enabling client to server TLS'',
             LogInfo ''logger'' ''TLS client using provided certificate pool'',
             Dialed ''store.example.com:10901'' 1,
             SeriesCall 1 example_request])
   \<and> fst (Next (Nexts 0 (example_cursor serving_stream))) = True
   \<and> Recv (i_client (Nexts (Suc 0) (example_cursor serving_stream)))
       = ((None, Some unavailable), serving_stream\<lparr>pos := 2\<rparr>)
   \<and> fst (Next (Nexts (Suc 0) (example_cursor serving_stream))) = False
   \<and> Err (snd (Next (Nexts (Suc 0) (example_cursor serving_stream)))) = Some unavailable"
proof -
  have a: "fst (Next (Nexts 0 (example_cursor serving_stream))) = True"
    by (simp add: Next_def Recv_def Let_def example_cursor_def serving_stream_def)
  then have b: "\<forall>k<Suc 0. fst (Next (Nexts k (example_cursor serving_stream)))"
    by simp
  have c: "Recv (i_client (Nexts (Suc 0) (example_cursor serving_stream)))
             = ((None, Some unavailable), serving_stream\<lparr>pos := 2\<rparr>)"
    by (simp add: Next_def Recv_def Let_def example_cursor_def serving_stream_def)
  have d: "Next (Nexts (Suc 0) (example_cursor serving_stream))
             = (fst (Next (Nexts (Suc 0) (example_cursor serving_stream))),
                snd (Next (Nexts (Suc 0) (example_cursor serving_stream))))"
    by simp
  have e: "Some unavailable \<noteq> None \<and> Some unavailable \<noteq> Some io_EOF"
    by (simp add: unavailable_def)
  from Next_distinguishes_end_from_failure [OF Read_serving b c d] e Read_serving a c
  show ?thesis by blast
qed

text \<open>
  Whatever the calls of \<open>Next\<close> answered: on a cursor that \<open>Read\<close> returned, \<open>Err()\<close> is
  non-nil exactly when some \<open>Recv\<close> so far has failed with an error other than \<open>io.EOF\<close>.
\<close>

lemma Err_reports_failure:
  assumes "Read env s ctx params = Inr ((Some c, e0), events)"
  shows "Err (Nexts n c) \<noteq> None \<longleftrightarrow>
           (\<exists>k<n. snd (fst (Recv (i_client (Nexts k c)))) \<noteq> None
                 \<and> snd (fst (Recv (i_client (Nexts k c)))) \<noteq> Some io_EOF)"
proof -
  from Read_cursor_fresh(2) [OF assms] have z: "i_err c = None" by simp
  have step: "\<And>i. Err (snd (Next i)) \<noteq> None \<longleftrightarrow>
                 Err i \<noteq> None \<or> (snd (fst (Recv (i_client i))) \<noteq> None
                                  \<and> snd (fst (Recv (i_client i))) \<noteq> Some io_EOF)"
    subgoal for i
      by (auto simp add: Next_def Err_def Let_def split: prod.splits if_splits)
    done
  show ?thesis
  proof (induction n)
    case 0
    with z show ?case by (simp add: Err_def)
  next
    case (Suc n)
    have "Err (Nexts (Suc n) c) \<noteq> None \<longleftrightarrow>
            Err (Nexts n c) \<noteq> None
            \<or> (snd (fst (Recv (i_client (Nexts n c)))) \<noteq> None
               \<and> snd (fst (Recv (i_client (Nexts n c)))) \<noteq> Some io_EOF)"
      using step [of "Nexts n c"] by simp
    with Suc show ?case
      by (metis less_Suc_eq)
  qed
qed

text \<open>
  C10. The claim says that after a response that is not a series payload \<open>Next\<close> returns
  true with a nil current series, and that the subsequent \<open>At\<close> constructs a chunk series
  from it. On the cursor around a stream that delivers a warning frame, \<open>Next\<close> returns
  true with a nil current series, and \<open>At\<close> panics on the nil pointer before
  \<open>newChunkSeries\<close> is called: no chunk series is constructed, where after a series
  payload \<open>At\<close> builds one.
\<close>

theorem At_after_warning_frame_panics:
  "fst (Recv (i_client (example_cursor warning_stream)))
     = (Some (SeriesResponse_Warning ''store not ready''), None)
   \<and> fst (Next (example_cursor warning_stream)) = True
   \<and> i_currentSeries (snd (Next (example_cursor warning_stream))) = None
   \<and> At chunkSeries_args (snd (Next (example_cursor warning_stream)))
       = Inl nil_pointer_dereference"
  by (simp add: Next_def Recv_def At_def Let_def example_cursor_def warning_stream_def)

text \<open>
  The same for every cursor and every response that is not a series payload: \<open>Next\<close>
  returns true, sets the current series to nil and records no error, and \<open>At\<close> then
  panics on the nil series.
\<close>

lemma Next_non_series_response:
  assumes "Recv (i_client i) = ((seriesResp, None), client)"
    and "\<forall>series. seriesResp \<noteq> Some (SeriesResponse_Series series)"
    and "Next i = (advanced, i')"
  shows "advanced \<and> i_currentSeries i' = None \<and> Err i' = Err i
         \<and> At newChunkSeries i' = Inl nil_pointer_dereference"
proof -
  from assms(2) have "GetSeries seriesResp = None"
    by (cases seriesResp rule: GetSeries.cases) simp_all
  with assms(1,3) show ?thesis
    by (auto simp add: Next_def At_def Err_def Let_def)
qed

text \<open>When a series is current, \<open>At\<close> hands its labels and chunks to \<open>newChunkSeries\<close>.\<close>

lemma At_current_series:
  "i_currentSeries i = Some s \<Longrightarrow>
     At newChunkSeries i
       = Inr (newChunkSeries (LabelsToPromLabels (Labels s)) (Chunks s) (i_mint i) (i_maxt i)
                [Aggr_COUNT, Aggr_SUM])"
  by (simp add: At_def)

text \<open>
  \<open>Close\<close> closes the connection exactly when \<open>CloseSend\<close> returned nil, whatever the
  cursor has been through.
\<close>

lemma Close_releases_iff:
  "ConnCloseCall (i_conn i) \<in> set (snd (Close env i)) \<longleftrightarrow> CloseSend (i_client i) = None"
  by (simp add: Close_def Let_def)



text \<open>
  C5. In every run of \<open>Close\<close>, a call closing the connection comes after the
  \<open>CloseSend\<close> call: whatever precedes it in the run contains \<open>CloseSend\<close>.
\<close>

theorem Close_half_closes_first:
  assumes "Close env i = (err, events)"
    and "events = before @ ConnCloseCall conn # after"
  shows "CloseSendCall \<in> set before"
  using assms
  by (auto simp add: Close_def Let_def append_eq_Cons_conv Cons_eq_append_conv split: if_splits)

theorem Close_half_closes_first_witness:
  "Close example_env (example_cursor ended_stream) = (None, [CloseSendCall, ConnCloseCall 1])
   \<and> [CloseSendCall, ConnCloseCall 1] = [CloseSendCall] @ ConnCloseCall 1 # []
   \<and> CloseSendCall \<in> set [CloseSendCall]"
proof -
  have a: "Close example_env (example_cursor ended_stream)
             = (None, [CloseSendCall, ConnCloseCall 1])"
    by (simp add: Close_def CloseSend_def example_env_def example_cursor_def ended_stream_def)
  have b: "[CloseSendCall, ConnCloseCall 1] = [CloseSendCall] @ ConnCloseCall 1 # []"
    by simp
  from Close_half_closes_first [OF a b] a b show ?thesis by blast
qed

end
